theory Spec2Isabelle
  imports Complex_Main "HOL-Library.Sublist"
begin

section \<open>Python values used by the pipeline\<close>

text \<open>
  A Python \<open>str\<close> is a sequence of code points. It is modelled as a \<open>string\<close> whose
  characters are read as the code points U+0000 to U+00FF, so that \<open>length\<close> is Python's
  \<open>len\<close> and the pound sign is the single character \<open>CHR 0xA3\<close>. Within that range
  \<open>str.isdigit\<close> holds for the ASCII digits and for the superscripts U+00B2, U+00B3 and
  U+00B9, and \<open>str.strip\<close> removes the characters listed in \<open>isspace\<close>.
\<close>

datatype py_error = InvalidOperation | StatisticsError | TypeError | KeyError | ValueError | JSONDecodeError | OtherError



definition isspace :: "char \<Rightarrow> bool" where
  "isspace c = (let n = (of_char c :: nat)
                in (9 \<le> n \<and> n \<le> 13) \<or> (28 \<le> n \<and> n \<le> 32) \<or> n = 0x85 \<or> n = 0xA0)"

definition strip :: "string \<Rightarrow> string" where
  "strip s = rev (dropWhile isspace (rev (dropWhile isspace s)))"

definition pound :: char where
  "pound = CHR 0xA3"







section \<open>Price normalizer: \<open>PriceParser.extract_numeric_price\<close>\<close>


subsection \<open>The normalizer as the specification words it\<close>


fun spec_split_at :: "string \<Rightarrow> string \<Rightarrow> (string \<times> string) option" where
  "spec_split_at sep [] = None"
| "spec_split_at sep (c # cs) =
     (if prefix sep (c # cs) then Some ([], drop (length sep) (c # cs))
      else map_option (\<lambda>(x, y). (c # x, y)) (spec_split_at sep cs))"






section \<open>Chunkers\<close>

definition nl :: char where
  "nl = CHR 0x0A"


fun join :: "string \<Rightarrow> string list \<Rightarrow> string" where
  "join sep [] = []"
| "join sep [x] = x"
| "join sep (x # y # ys) = x @ sep @ join sep (y # ys)"

subsection \<open>\<open>scraper_enhanced.split_dom_content\<close>: lines joined by a newline\<close>



subsection \<open>\<open>scraper.split_dom_content\<close>: element texts joined by a blank\<close>












section \<open>Market analysis\<close>

text \<open>
  A product is a dictionary; the keys the analysis reads are fields, a missing key is
  \<open>None\<close>. Python floats are carried as exact reals, so the statistics below are those
  of \<open>statistics.mean\<close>, \<open>median\<close> and \<open>stdev\<close> before any binary rounding, and
  \<open>round(x, 2)\<close> rounds the exact value to hundredths, a tie to the even neighbour.
\<close>

record product =
  product_name :: string
  price :: "string option"
  brand :: "string option"
  numeric_price :: "real option"

record market_analysis =
  average_price :: real
  median_price :: real
  price_std :: "real option"
  range_min :: real
  range_max :: real
  brand_averages :: "(string \<times> real) list"
  budget :: real
  mid_range :: real
  premium :: real

definition round_half_even :: "real \<Rightarrow> int" where
  "round_half_even y =
     (let f = \<lfloor>y\<rfloor>; d = y - of_int f
      in if d < 1 / 2 then f else if d > 1 / 2 then f + 1 else if even f then f else f + 1)"

definition round2 :: "real \<Rightarrow> real" where
  "round2 x = of_int (round_half_even (x * 100)) / 100"


definition median :: "real list \<Rightarrow> real" where
  "median xs =
     (let ys = sort xs; n = length ys
      in if odd n then ys ! (n div 2) else (ys ! (n div 2 - 1) + ys ! (n div 2)) / 2)"




subsection \<open>\<open>MarketAnalyzer\<close> of \<open>parser_enhanced\<close>\<close>

definition get_empty_analysis :: market_analysis where
  "get_empty_analysis =
     \<lparr>average_price = 0, median_price = 0, price_std = Some 0, range_min = 0, range_max = 0,
      brand_averages = [], budget = 0, mid_range = 0, premium = 0\<rparr>"







subsection \<open>\<open>analyze_market_data\<close> of \<open>parser\<close>\<close>






subsection \<open>Notions the claims about the analysis are stated with\<close>






text \<open>A product that has a price text and nothing else, for the examples; and \<open>float\<close>
  on unsigned decimal numerals, where it agrees with \<open>Decimal\<close>, as the instance of
  \<open>py_float\<close> in the examples.\<close>

definition listing :: "string \<Rightarrow> product" where
  "listing t = \<lparr>product_name = [], price = Some t, brand = None, numeric_price = None\<rparr>"


section \<open>Recommendations\<close>

text \<open>
  The lines start with the bullet U+2022, which lies beyond the characters of \<open>string\<close>;
  the three octets of its UTF-8 form stand for it. Lines are only compared with each
  other, never measured. The formatting of a float, \<open>:.2f\<close> in \<open>parser\<close> and \<open>str\<close> in
  \<open>parser_enhanced\<close>, is the interpreter's and is a parameter of each generator.
\<close>

definition bullet :: string where
  "bullet = [CHR 0xE2, CHR 0x80, CHR 0xA2]"

definition premium_line :: string where
  "premium_line = bullet @
     '' The market shows premium pricing opportunities, consider positioning in the upper segments''"

definition price_sensitive_line :: string where
  "price_sensitive_line = bullet @
     '' The market is price-sensitive, consider competitive pricing strategies''"

definition wide_range_line :: string where
  "wide_range_line = bullet @
     '' Wide price range indicates diverse market segments, consider multi-tier pricing''"

definition narrow_range_line :: string where
  "narrow_range_line = bullet @
     '' Narrow price range suggests standardized pricing, focus on value-added features''"

subsection \<open>\<open>generate_recommendations\<close> of \<open>parser\<close>\<close>

text \<open>\<open>sorted(..., key = average, reverse=True)\<close> is stable: brands of equal average
  keep the order of the dictionary.\<close>

definition sorted_brands :: "(string \<times> real) list \<Rightarrow> (string \<times> real) list" where
  "sorted_brands bs = sort_key (\<lambda>(b, v). - v) bs"

definition generate_recommendations :: "(real \<Rightarrow> string) \<Rightarrow> market_analysis \<Rightarrow> string list" where
  "generate_recommendations fmt2 market_analysis =
     [nl # ''Market Overview'',
      bullet @ '' The average price in the market is '' @ [pound] @ fmt2 (average_price market_analysis),
      bullet @ '' The median price is '' @ [pound] @ fmt2 (median_price market_analysis),
      bullet @ '' Prices range from '' @ [pound] @ fmt2 (range_min market_analysis)
        @ '' to '' @ [pound] @ fmt2 (range_max market_analysis),
      nl # ''Price Segments'',
      bullet @ '' Budget segment: Below '' @ [pound] @ fmt2 (budget market_analysis),
      bullet @ '' Mid-range segment: Around '' @ [pound] @ fmt2 (mid_range market_analysis),
      bullet @ '' Premium segment: Above '' @ [pound] @ fmt2 (premium market_analysis)]
     @ (if brand_averages market_analysis \<noteq> []
        then (nl # ''Brand Insights'')
             # map (\<lambda>(b, v). bullet @ '' '' @ b @ '': Average price '' @ [pound] @ fmt2 v)
                 (take 5 (sorted_brands (brand_averages market_analysis)))
        else [])
     @ [nl # ''Strategic Recommendations'']
     @ [if median_price market_analysis > average_price market_analysis
        then premium_line else price_sensitive_line]
     @ [if range_max market_analysis - range_min market_analysis > average_price market_analysis
        then wide_range_line else narrow_range_line]"

subsection \<open>\<open>RecommendationGenerator.generate_price_recommendations\<close> of \<open>parser_enhanced\<close>\<close>

text \<open>The argument \<open>product_data\<close> is not read. An absent or empty analysis gives the
  single line on insufficient data.\<close>

definition generate_price_recommendations ::
  "(real \<Rightarrow> string) \<Rightarrow> product list \<Rightarrow> market_analysis option \<Rightarrow> string list" where
  "generate_price_recommendations str_num product_data market_analysis =
     (case market_analysis of
        None \<Rightarrow> [''Insufficient data for price analysis.'']
      | Some a \<Rightarrow>
          [''Market Overview:'',
           bullet @ '' Average market price: '' @ [pound] @ str_num (average_price a),
           bullet @ '' Price range: '' @ [pound] @ str_num (range_min a)
             @ '' - '' @ [pound] @ str_num (range_max a),
           nl # ''Price Segments:'',
           bullet @ '' Budget segment: Below '' @ [pound] @ str_num (budget a),
           bullet @ '' Mid-range segment: Around '' @ [pound] @ str_num (mid_range a),
           bullet @ '' Premium segment: Above '' @ [pound] @ str_num (premium a)]
          @ (if brand_averages a \<noteq> []
             then (nl # ''Brand Positioning:'')
                  # map (\<lambda>(b, avg_price).
                          bullet @ '' '' @ b @ '': Average price '' @ [pound] @ str_num (round2 avg_price))
                      (brand_averages a)
             else [])
          @ [nl # ''Strategic Recommendations:'',
             bullet @ '' For competitive pricing: Set prices slightly below the market average'',
             bullet @ '' For premium positioning: Price 10-15% above the market average'',
             bullet @ '' For market penetration: Consider pricing at the lower segment''])"

text \<open>
  For the examples: \<open>str\<close> of a natural number, and the reading of \<open>:.2f\<close> on a
  non-negative exact value, as an instance of the formatting parameter.
\<close>

fun show_nat :: "nat \<Rightarrow> string" where
  "show_nat n =
     (if n < 10 then [char_of (48 + n)] else show_nat (n div 10) @ [char_of (48 + n mod 10)])"

definition fixed2 :: "real \<Rightarrow> string" where
  "fixed2 x =
     (let c = nat (round_half_even (x * 100))
      in show_nat (c div 100) @ ''.'' @ [char_of (48 + c mod 100 div 10), char_of (48 + c mod 10)])"

section \<open>Raw extraction\<close>

text \<open>
  A listing node is given by what the selectors of a scraper find in it: the text of the
  title, price, condition and shipping elements, each absent or present, and the link
  element, absent or present with or without an \<open>href\<close>. The link of a record is a
  string or, in \<open>app\<close>, Python's \<open>None\<close>. \<open>xs[:n]\<close> for an \<open>int\<close>
  counts a negative \<open>n\<close> from the end. \<open>str.lower\<close> on the characters of \<open>string\<close>
  moves the capital letters of ASCII and of Latin-1 to their small letters.
\<close>

record item_node =
  title_elem :: "string option"
  price_elem :: "string option"
  link_elem :: "string option option"
  condition_elem :: "string option"
  shipping_elem :: "string option"

record scraped =
  title :: string
  price_field :: string
  condition :: string
  shipping :: "string option"
  link :: "string option"

definition py_take :: "int \<Rightarrow> 'a list \<Rightarrow> 'a list" where
  "py_take n xs = (if 0 \<le> n then take (nat n) xs else take (length xs - nat (- n)) xs)"

definition lower_char :: "char \<Rightarrow> char" where
  "lower_char c =
     (let n = (of_char c :: nat)
      in if (65 \<le> n \<and> n \<le> 90) \<or> (192 \<le> n \<and> n \<le> 222 \<and> n \<noteq> 215)
         then char_of (n + 32) else c)"

definition lower :: "string \<Rightarrow> string" where
  "lower s = map lower_char s"

subsection \<open>\<open>EbayScraper._parse_items\<close> of \<open>scraper\<close>\<close>

fun parse_items_loop :: "item_node list \<Rightarrow> scraped list \<Rightarrow> scraped list" where
  "parse_items_loop [] items = items"
| "parse_items_loop (item # rest) items =
     (case (title_elem item, price_elem item, link_elem item) of
        (Some title_text, Some price_str, Some href) \<Rightarrow>
          (let title = strip title_text in
           if lower title = ''shop on ebay'' then parse_items_loop rest items
           else parse_items_loop rest
                  (items @ [\<lparr>title = title,
                             price_field = strip price_str,
                             condition = (case condition_elem item of
                                            Some c \<Rightarrow> strip c | None \<Rightarrow> ''Not specified''),
                             shipping = None,
                             link = Some (case href of Some h \<Rightarrow> h | None \<Rightarrow> [])\<rparr>]))
      | _ \<Rightarrow> parse_items_loop rest items)"

definition parse_items :: "item_node list \<Rightarrow> int \<Rightarrow> scraped list" where
  "parse_items results limit = parse_items_loop (py_take limit results) []"

subsection \<open>\<open>EbayPlaywrightScraper\<close> of \<open>playwright_scraper\<close>\<close>

definition extract_item_data :: "item_node \<Rightarrow> scraped option" where
  "extract_item_data item =
     (case title_elem item of
        None \<Rightarrow> None
      | Some title_text \<Rightarrow>
          (let title = strip title_text in
           if lower title = ''shop on ebay'' then None
           else
             let price = (case price_elem item of Some p \<Rightarrow> strip p | None \<Rightarrow> ''Not specified'');
                 link = (case link_elem item of Some href \<Rightarrow> href | None \<Rightarrow> None)
             in case link of
                  None \<Rightarrow> None
                | Some h \<Rightarrow>
                    if h = [] then None
                    else Some \<lparr>title = title, price_field = price,
                               condition = (case condition_elem item of
                                              Some c \<Rightarrow> strip c | None \<Rightarrow> ''Not specified''),
                               shipping = Some (case shipping_elem item of
                                                  Some t \<Rightarrow> strip t | None \<Rightarrow> ''Not specified''),
                               link = Some h\<rparr>))"

text \<open>The loop of \<open>scrape\<close> over \<open>item_elements[:max_items if max_items else None]\<close>:
  an absent or zero \<open>max_items\<close> takes every element.\<close>

fun scrape_loop :: "item_node list \<Rightarrow> scraped list \<Rightarrow> scraped list" where
  "scrape_loop [] items = items"
| "scrape_loop (item # rest) items =
     (case extract_item_data item of
        Some item_data \<Rightarrow> scrape_loop rest (items @ [item_data])
      | None \<Rightarrow> scrape_loop rest items)"

definition scrape_items :: "item_node list \<Rightarrow> int option \<Rightarrow> scraped list" where
  "scrape_items item_elements max_items =
     scrape_loop
       (case max_items of
          None \<Rightarrow> item_elements
        | Some n \<Rightarrow> if n = 0 then item_elements else py_take n item_elements) []"

subsection \<open>\<open>scrape_ebay\<close> of \<open>app\<close>\<close>

fun scrape_ebay_loop :: "item_node list \<Rightarrow> scraped list \<Rightarrow> scraped list" where
  "scrape_ebay_loop [] items = items"
| "scrape_ebay_loop (node # rest) items =
     scrape_ebay_loop rest
       (items @ [\<lparr>title = (case title_elem node of Some t \<Rightarrow> t | None \<Rightarrow> ''No title''),
                  price_field = (case price_elem node of Some p \<Rightarrow> p | None \<Rightarrow> ''No price''),
                  condition = (case condition_elem node of
                                 Some c \<Rightarrow> c | None \<Rightarrow> ''Not specified''),
                  shipping = None,
                  link = (case link_elem node of Some href \<Rightarrow> href | None \<Rightarrow> Some ''#'')\<rparr>])"

definition scrape_ebay :: "item_node list \<Rightarrow> int \<Rightarrow> scraped list" where
  "scrape_ebay listings max_results = scrape_ebay_loop (py_take max_results listings) []"

subsection \<open>Notions the claim about extraction is stated with\<close>

text \<open>A node that \<open>_parse_items\<close> accepts and the record it makes of it.\<close>

definition complete_node :: "item_node \<Rightarrow> bool" where
  "complete_node n =
     (title_elem n \<noteq> None \<and> price_elem n \<noteq> None \<and> link_elem n \<noteq> None
      \<and> lower (strip (the (title_elem n))) \<noteq> ''shop on ebay'')"

definition record_of :: "item_node \<Rightarrow> scraped" where
  "record_of n =
     \<lparr>title = strip (the (title_elem n)), price_field = strip (the (price_elem n)),
      condition = (case condition_elem n of Some c \<Rightarrow> strip c | None \<Rightarrow> ''Not specified''),
      shipping = None,
      link = Some (case the (link_elem n) of Some h \<Rightarrow> h | None \<Rightarrow> [])\<rparr>"

section \<open>Delegate adapters and the chat responder\<close>

text \<open>
  The delegate is a function from the texts handed to it to its answer or a failure, and
  what a function does besides returning is a list of effects, in order: a call of the
  delegate with its texts, an evaluation of a text as Python code by \<open>eval\<close>, a parse of
  a text by \<open>json.loads\<close>. Printing is not recorded. \<open>eval\<close> and \<open>json.loads\<close> are
  parameters; their results are read as lists of products.
\<close>

datatype effect = Delegate "string list" | Eval string | JsonLoads string

fun is_eval :: "effect \<Rightarrow> bool" where
  "is_eval (Eval t) = True"
| "is_eval e = False"

fun is_delegate :: "effect \<Rightarrow> bool" where
  "is_delegate (Delegate ts) = True"
| "is_delegate e = False"

subsection \<open>\<open>parse_llm_response\<close> of \<open>parser\<close>\<close>

definition formatting_prompt :: "string \<Rightarrow> string" where
  "formatting_prompt response_text =
     nl # ''        Convert this text into a valid JSON array of product objects:''
     @ nl # ''        '' @ response_text @ nl # ''        ''"

definition parse_llm_response ::
  "(string list \<Rightarrow> py_error + string) \<Rightarrow> (string \<Rightarrow> py_error + product list) \<Rightarrow> string
   \<Rightarrow> effect list \<times> product list" where
  "parse_llm_response chat_completion py_eval response_text =
     (let messages = [''You are a helpful assistant that formats text as valid JSON.'',
                      formatting_prompt response_text]
      in case chat_completion messages of
           Inl e \<Rightarrow> ([Delegate messages], [])
         | Inr content \<Rightarrow>
             (case py_eval content of
                Inl e \<Rightarrow> ([Delegate messages, Eval content], [])
              | Inr products \<Rightarrow> ([Delegate messages, Eval content], products)))"

subsection \<open>The loop of \<open>ContentParser.parse_with_llm\<close> of \<open>parser_enhanced\<close>\<close>

fun parse_with_llm_loop ::
  "(string list \<Rightarrow> py_error + string) \<Rightarrow> (string \<Rightarrow> py_error + product list) \<Rightarrow> string
   \<Rightarrow> string list \<Rightarrow> effect list \<Rightarrow> product list \<Rightarrow> effect list \<times> product list" where
  "parse_with_llm_loop chain json_loads parse_description [] effects all_results =
     (effects, all_results)"
| "parse_with_llm_loop chain json_loads parse_description (chunk # rest) effects all_results =
     (case chain [chunk, parse_description] of
        Inl e \<Rightarrow>
          parse_with_llm_loop chain json_loads parse_description rest
            (effects @ [Delegate [chunk, parse_description]]) all_results
      | Inr content \<Rightarrow>
          (case json_loads content of
             Inl e \<Rightarrow>
               parse_with_llm_loop chain json_loads parse_description rest
                 (effects @ [Delegate [chunk, parse_description], JsonLoads content]) all_results
           | Inr products \<Rightarrow>
               parse_with_llm_loop chain json_loads parse_description rest
                 (effects @ [Delegate [chunk, parse_description], JsonLoads content])
                 (all_results @ products)))"

subsection \<open>\<open>ChatbotAssistant.generate_response\<close> of \<open>parser_enhanced\<close>\<close>

text \<open>
  The product list and the analysis are optional arguments. The brands of the summary go
  through a Python \<open>set\<close>, whose order of iteration is the interpreter's: \<open>set_iter\<close>
  stands for it, and \<open>str_num\<close> for \<open>str\<close> of a number. Subscripting an absent analysis
  raises \<open>TypeError\<close>, which nothing here catches.
\<close>

definition fixed_message :: string where
  "fixed_message = ''Please analyze some market data first before asking questions.''"

definition create_product_summary ::
  "(real \<Rightarrow> string) \<Rightarrow> (string list \<Rightarrow> string list) \<Rightarrow> product list
   \<Rightarrow> market_analysis option \<Rightarrow> py_error + string" where
  "create_product_summary str_num set_iter product_data market_analysis =
     (let summary = ''Products analyzed: '' @ show_nat (length product_data) @ [nl]
      in if product_data \<noteq> []
         then
           let brands = set_iter
                 (map (\<lambda>p. case brand p of None \<Rightarrow> ''Unknown'' | Some b \<Rightarrow> b)
                    (filter (\<lambda>p. brand p \<noteq> Some ''Not specified'') product_data))
           in case market_analysis of
                None \<Rightarrow> Inl TypeError
              | Some a \<Rightarrow>
                  Inr (summary @ ''Brands: '' @ join '', '' brands @ [nl]
                       @ ''Price range: '' @ [pound] @ str_num (range_min a)
                       @ '' - '' @ [pound] @ str_num (range_max a) @ [nl]
                       @ ''Average price: '' @ [pound] @ str_num (average_price a))
         else Inr summary)"

definition create_market_summary :: "(real \<Rightarrow> string) \<Rightarrow> market_analysis option \<Rightarrow> string" where
  "create_market_summary str_num market_analysis =
     (case market_analysis of
        None \<Rightarrow> []
      | Some a \<Rightarrow>
          nl # ''        Average Price: '' @ [pound] @ str_num (average_price a)
          @ nl # ''        Median Price: '' @ [pound] @ str_num (median_price a)
          @ nl # ''        Price Range: '' @ [pound] @ str_num (range_min a)
              @ '' - '' @ [pound] @ str_num (range_max a)
          @ nl # ''        Budget Segment: Below '' @ [pound] @ str_num (budget a)
          @ nl # ''        Mid-Range: '' @ [pound] @ str_num (mid_range a)
          @ nl # ''        Premium Segment: Above '' @ [pound] @ str_num (premium a)
          @ nl # ''        '')"

definition generate_response ::
  "(string list \<Rightarrow> py_error + string) \<Rightarrow> (real \<Rightarrow> string) \<Rightarrow> (string list \<Rightarrow> string list)
   \<Rightarrow> string \<Rightarrow> product list option \<Rightarrow> market_analysis option
   \<Rightarrow> effect list \<times> (py_error + string)" where
  "generate_response chat_model str_num set_iter user_question product_data market_analysis =
     (case product_data of
        None \<Rightarrow> ([], Inr fixed_message)
      | Some ps \<Rightarrow>
          if ps = [] then ([], Inr fixed_message)
          else
            (case create_product_summary str_num set_iter ps market_analysis of
               Inl e \<Rightarrow> ([], Inl e)
             | Inr product_summary \<Rightarrow>
                 let market_summary = create_market_summary str_num market_analysis
                 in case chat_model [product_summary, market_summary, user_question] of
                      Inl e \<Rightarrow> ([Delegate [product_summary, market_summary, user_question]], Inl e)
                    | Inr content \<Rightarrow>
                        ([Delegate [product_summary, market_summary, user_question]], Inr content)))"

text \<open>For the examples: a delegate whose answer is Python code and not data, one whose
  answer is a fixed text, and the order of first occurrence as one order a set may
  iterate in.\<close>

definition code_answer :: string where
  "code_answer = ''__import__(chr(111)+chr(115)).getcwd()''"

definition code_delegate :: "string list \<Rightarrow> py_error + string" where
  "code_delegate messages = Inr code_answer"

definition echo_delegate :: "string list \<Rightarrow> py_error + string" where
  "echo_delegate messages = Inr ''ok''"

section \<open>Properties of the price normalizer\<close>


lemma split_at_decompose:
  "spec_split_at sep s = Some (x, y) \<Longrightarrow> s = x @ sep @ y"
proof (induction s arbitrary: x)
  case Nil
  then show ?case by simp
next
  case (Cons c cs)
  show ?case
  proof (cases "prefix sep (c # cs)")
    case True
    then obtain r where r: "c # cs = sep @ r"
      by (auto simp: prefix_def)
    from True Cons.prems have "x = []" "y = drop (length sep) (c # cs)"
      by simp_all
    with r show ?thesis by simp
  next
    case False
    with Cons.prems obtain x' where "spec_split_at sep cs = Some (x', y)" "x = c # x'"
      by (auto split: prod.splits)
    with Cons.IH show ?thesis by simp
  qed
qed













section \<open>Properties of the chunkers\<close>
























section \<open>Properties of the market analysis\<close>























section \<open>Properties of the recommendations\<close>

lemma no_pound: "pound \<notin> set premium_line" "pound \<notin> set price_sensitive_line"
  by (simp_all add: premium_line_def price_sensitive_line_def bullet_def pound_def)

lemma strategic_lines_differ:
  "premium_line \<noteq> price_sensitive_line" "price_sensitive_line \<noteq> premium_line"
  "wide_range_line \<noteq> premium_line" "wide_range_line \<noteq> price_sensitive_line"
  "narrow_range_line \<noteq> premium_line" "narrow_range_line \<noteq> price_sensitive_line"
  by (simp_all add: premium_line_def price_sensitive_line_def wide_range_line_def
      narrow_range_line_def)

lemma count_pound_line:
  "pound \<in> set l \<Longrightarrow> count_list (l # ls) premium_line = count_list ls premium_line"
  "pound \<in> set l \<Longrightarrow> count_list (l # ls) price_sensitive_line = count_list ls price_sensitive_line"
  using no_pound by auto

lemma count_heading:
  "count_list ((nl # t) # ls) premium_line = count_list ls premium_line"
  "count_list ((nl # t) # ls) price_sensitive_line = count_list ls price_sensitive_line"
  by (simp_all add: premium_line_def price_sensitive_line_def bullet_def nl_def)

lemma count_strategic:
  "count_list (premium_line # ls) premium_line = 1 + count_list ls premium_line"
  "count_list (price_sensitive_line # ls) price_sensitive_line = 1 + count_list ls price_sensitive_line"
  "count_list (premium_line # ls) price_sensitive_line = count_list ls price_sensitive_line"
  "count_list (price_sensitive_line # ls) premium_line = count_list ls premium_line"
  "count_list (wide_range_line # ls) premium_line = count_list ls premium_line"
  "count_list (wide_range_line # ls) price_sensitive_line = count_list ls price_sensitive_line"
  "count_list (narrow_range_line # ls) premium_line = count_list ls premium_line"
  "count_list (narrow_range_line # ls) price_sensitive_line = count_list ls price_sensitive_line"
  using strategic_lines_differ by simp_all

lemma count_all_pound:
  "\<forall>l\<in>set ls. pound \<in> set l \<Longrightarrow>
   count_list ls premium_line = 0 \<and> count_list ls price_sensitive_line = 0"
  using no_pound by (induction ls) auto

lemma count_brand_lines:
  "count_list (map (\<lambda>(b, v). bullet @ '' '' @ b @ '': Average price '' @ [pound] @ f v) bs) premium_line = 0"
  "count_list (map (\<lambda>(b, v). bullet @ '' '' @ b @ '': Average price '' @ [pound] @ f v) bs) price_sensitive_line = 0"
  by (rule count_all_pound [THEN conjunct1], auto)
     (rule count_all_pound [THEN conjunct2], auto)

lemma legacy_strategic_counts:
  "count_list (generate_recommendations fmt2 a) premium_line
     = (if median_price a > average_price a then 1 else 0)
   \<and> count_list (generate_recommendations fmt2 a) price_sensitive_line
     = (if median_price a > average_price a then 0 else 1)"
  using count_brand_lines [of fmt2 "take 5 (sorted_brands (brand_averages a))"]
  by (simp add: generate_recommendations_def count_pound_line count_heading count_strategic
        del: count_list.simps(2))

lemma count_enhanced_fixed:
  "count_list [nl # ''Strategic Recommendations:'',
             bullet @ '' For competitive pricing: Set prices slightly below the market average'',
             bullet @ '' For premium positioning: Price 10-15% above the market average'',
             bullet @ '' For market penetration: Consider pricing at the lower segment''] premium_line = 0"
  "count_list [nl # ''Strategic Recommendations:'',
             bullet @ '' For competitive pricing: Set prices slightly below the market average'',
             bullet @ '' For premium positioning: Price 10-15% above the market average'',
             bullet @ '' For market penetration: Consider pricing at the lower segment''] price_sensitive_line = 0"
  by (simp_all add: premium_line_def price_sensitive_line_def bullet_def nl_def)

lemma count_plain:
  "count_list [''Insufficient data for price analysis.''] premium_line = 0"
  "count_list [''Insufficient data for price analysis.''] price_sensitive_line = 0"
  "count_list (''Market Overview:'' # ls) premium_line = count_list ls premium_line"
  "count_list (''Market Overview:'' # ls) price_sensitive_line = count_list ls price_sensitive_line"
  by (simp_all add: premium_line_def price_sensitive_line_def bullet_def)

lemma enhanced_strategic_counts:
  "count_list (generate_price_recommendations str_num pd ma) premium_line = 0
   \<and> count_list (generate_price_recommendations str_num pd ma) price_sensitive_line = 0"
proof (cases ma)
  case None
  then show ?thesis
    by (simp add: generate_price_recommendations_def count_plain del: count_list.simps(2))
next
  case (Some a)
  then show ?thesis
    using count_brand_lines [of "\<lambda>v. str_num (round2 v)" "brand_averages a"] count_enhanced_fixed
    by (simp add: generate_price_recommendations_def count_pound_line count_heading count_plain
        del: count_list.simps(2))
qed

text \<open>
  Claim C6, as stated, fails for \<open>generate_price_recommendations\<close>, whose strategic
  section is three fixed lines: with a median of 30 above a mean of 20 its output has no
  line on premium pricing opportunities.
\<close>

theorem enhanced_generator_has_no_premium_line:
  "premium_line \<notin> set (generate_price_recommendations fixed2 []
     (Some \<lparr>average_price = 20, median_price = 30, price_std = Some 10, range_min = 10,
            range_max = 30, brand_averages = [], budget = 10, mid_range = 20, premium = 30\<rparr>))"
  using enhanced_strategic_counts [of fixed2 "[]"
     "Some \<lparr>average_price = 20, median_price = 30, price_std = Some 10, range_min = 10,
            range_max = 30, brand_averages = [], budget = 10, mid_range = 20, premium = 30\<rparr>"]
  by (simp add: count_list_0_iff)

text \<open>
  Claim C6, amended. For every analysis and every formatting, the output of
  \<open>generate_recommendations\<close> has the line on premium pricing opportunities exactly once
  and the price-sensitive line not at all when the median is above the mean, and the
  price-sensitive line exactly once and the other not at all when it is not. The output
  of \<open>generate_price_recommendations\<close> has neither line.
\<close>

theorem strategic_line_follows_median:
  "(median_price a > average_price a \<longrightarrow>
      count_list (generate_recommendations fmt2 a) premium_line = 1
      \<and> count_list (generate_recommendations fmt2 a) price_sensitive_line = 0)
   \<and> (median_price a \<le> average_price a \<longrightarrow>
      count_list (generate_recommendations fmt2 a) premium_line = 0
      \<and> count_list (generate_recommendations fmt2 a) price_sensitive_line = 1)
   \<and> premium_line \<notin> set (generate_price_recommendations str_num product_data analysis)
   \<and> price_sensitive_line \<notin> set (generate_price_recommendations str_num product_data analysis)"
  using legacy_strategic_counts [of fmt2 a]
    enhanced_strategic_counts [of str_num product_data analysis]
  by (simp add: count_list_0_iff)

theorem strategic_line_follows_median_witness:
  "count_list (generate_recommendations fixed2
      \<lparr>average_price = 20, median_price = 30, price_std = None, range_min = 10,
       range_max = 30, brand_averages = [(''Acme'', 30)], budget = 16, mid_range = 20,
       premium = 24\<rparr>) premium_line = 1
   \<and> count_list (generate_recommendations fixed2
      \<lparr>average_price = 20, median_price = 20, price_std = None, range_min = 10,
       range_max = 30, brand_averages = [], budget = 16, mid_range = 20,
       premium = 24\<rparr>) price_sensitive_line = 1"
  using strategic_line_follows_median [of
      "\<lparr>average_price = 20, median_price = 30, price_std = None, range_min = 10,
       range_max = 30, brand_averages = [(''Acme'', 30)], budget = 16, mid_range = 20,
       premium = 24\<rparr>" fixed2]
    strategic_line_follows_median [of
      "\<lparr>average_price = 20, median_price = 20, price_std = None, range_min = 10,
       range_max = 30, brand_averages = [], budget = 16, mid_range = 20,
       premium = 24\<rparr>" fixed2]
  by simp

section \<open>Properties of raw extraction\<close>

lemma parse_items_loop_eq:
  "parse_items_loop ns acc = acc @ map record_of (filter complete_node ns)"
  by (induction ns arbitrary: acc)
     (auto simp: complete_node_def record_of_def Let_def split: option.splits)

lemma scrape_loop_eq: "scrape_loop ns acc = acc @ List.map_filter extract_item_data ns"
  by (induction ns arbitrary: acc) (auto simp: List.map_filter_simps split: option.splits)

lemma scrape_ebay_loop_length: "length (scrape_ebay_loop ns acc) = length acc + length ns"
  by (induction ns arbitrary: acc) auto

lemma py_take_length: "0 \<le> n \<Longrightarrow> int (length (py_take n xs)) \<le> n"
  by (simp add: py_take_def)

lemma py_take_set: "set (py_take n xs) \<subseteq> set xs"
  by (auto simp: py_take_def dest: in_set_takeD)

lemma dropWhile_fix: "xs = [] \<or> \<not> P (hd xs) \<Longrightarrow> dropWhile P xs = xs"
  by (cases xs) auto

lemma strip_idem: "strip (strip s) = strip s"
proof -
  define t where "t = dropWhile isspace s"
  define u where "u = dropWhile isspace (rev t)"
  have s: "strip s = rev u"
    by (simp add: strip_def t_def u_def)
  have 1: "u = [] \<or> \<not> isspace (hd u)"
    unfolding u_def by (metis hd_dropWhile)
  have 2: "rev u = [] \<or> \<not> isspace (hd (rev u))"
  proof (cases "u = []")
    case True
    then show ?thesis by simp
  next
    case False
    have "rev t = takeWhile isspace (rev t) @ u"
      by (simp add: u_def)
    with False have "last (rev t) = last u"
      by (metis last_appendR)
    moreover from False have "t \<noteq> []"
      by (auto simp: u_def)
    ultimately have "last u = hd t"
      by (simp add: last_rev)
    moreover from \<open>t \<noteq> []\<close> have "\<not> isspace (hd t)"
      unfolding t_def by (metis hd_dropWhile)
    ultimately show ?thesis
      using False by (simp add: hd_rev)
  qed
  have "strip (rev u) = rev (dropWhile isspace (rev (dropWhile isspace (rev u))))"
    by (simp add: strip_def)
  also have "\<dots> = rev (dropWhile isspace u)"
    using 2 by (simp add: dropWhile_fix)
  also have "\<dots> = rev u"
    using 1 by (simp add: dropWhile_fix)
  finally show ?thesis
    by (simp add: s)
qed

lemma extract_item_data_Some:
  "extract_item_data n = Some r \<Longrightarrow>
         title_elem n \<noteq> None \<and> link_elem n = Some (link r) \<and> link r \<noteq> None \<and> link r \<noteq> Some []
         \<and> lower (title r) \<noteq> ''shop on ebay''
         \<and> price_field r = (case price_elem n of Some p \<Rightarrow> strip p | None \<Rightarrow> ''Not specified'')"
proof -
  assume a: "extract_item_data n = Some r"
  then obtain t where t: "title_elem n = Some t"
    by (cases "title_elem n") (simp_all add: extract_item_data_def)
  from a t have p: "lower (strip t) \<noteq> ''shop on ebay''"
    by (auto simp: extract_item_data_def Let_def)
  from a t p obtain h where h: "link_elem n = Some (Some h)" "h \<noteq> []"
    by (cases "link_elem n"; cases "the (link_elem n)"; cases "the (the (link_elem n)) = []")
       (simp_all add: extract_item_data_def Let_def)
  from a t p h have "r = \<lparr>title = strip t,
       price_field = (case price_elem n of Some p \<Rightarrow> strip p | None \<Rightarrow> ''Not specified''),
       condition = (case condition_elem n of Some c \<Rightarrow> strip c | None \<Rightarrow> ''Not specified''),
       shipping = Some (case shipping_elem n of Some t \<Rightarrow> strip t | None \<Rightarrow> ''Not specified''),
       link = Some h\<rparr>"
    by (simp add: extract_item_data_def Let_def)
  with t p h show ?thesis by simp
qed

lemmas extraction_eval =
  complete_node_def record_of_def extract_item_data_def lower_def lower_char_def strip_def
  isspace_def py_take_def char_of_def bit_Suc_0_iff

text \<open>
  Claim C5, as stated, fails for the Playwright extractor, which puts \<open>Not specified\<close>
  where a node has no price element and emits the record.
\<close>

theorem playwright_emits_node_without_price:
  "extract_item_data
     \<lparr>title_elem = Some ''Phone'', price_elem = None, link_elem = Some (Some ''http://e/1''),
      condition_elem = None, shipping_elem = None\<rparr>
   = Some \<lparr>title = ''Phone'', price_field = ''Not specified'', condition = ''Not specified'',
            shipping = Some ''Not specified'', link = Some ''http://e/1''\<rparr>"
  by (simp add: extraction_eval)

text \<open>
  Claim C5, amended. \<open>_parse_items\<close> emits, in source order, the records of those among
  the first \<open>limit\<close> nodes that have a title, a price and a link element and whose
  trimmed title is not, in any case of letters, \<open>shop on ebay\<close>; so every record comes
  from such a node, and there are at most \<open>limit\<close> of them when \<open>limit\<close> is not
  negative. \<open>_extract_item_data\<close> emits a record only for a node with a title element and
  a non-empty link whose trimmed title is not the placeholder, with the price text or
  \<open>Not specified\<close> for a missing price. \<open>scrape_ebay\<close> emits one record for each of the
  nodes it takes.
\<close>

theorem raw_extraction_filters:
  "parse_items nodes limit = map record_of (filter complete_node (py_take limit nodes))
   \<and> (\<forall>r\<in>set (parse_items nodes limit). \<exists>n\<in>set nodes.
         r = record_of n \<and> title_elem n \<noteq> None \<and> price_elem n \<noteq> None \<and> link_elem n \<noteq> None
         \<and> lower (strip (title r)) \<noteq> ''shop on ebay'')
   \<and> (0 \<le> limit \<longrightarrow> int (length (parse_items nodes limit)) \<le> limit)
   \<and> (extract_item_data item = Some item_data \<longrightarrow>
         title_elem item \<noteq> None \<and> link_elem item = Some (link item_data)
         \<and> link item_data \<noteq> None \<and> link item_data \<noteq> Some []
         \<and> lower (title item_data) \<noteq> ''shop on ebay''
         \<and> price_field item_data
             = (case price_elem item of Some p \<Rightarrow> strip p | None \<Rightarrow> ''Not specified''))
   \<and> length (scrape_ebay listings max_results) = length (py_take max_results listings)"
proof (intro conjI)
  show eq: "parse_items nodes limit = map record_of (filter complete_node (py_take limit nodes))"
    by (simp add: parse_items_def parse_items_loop_eq)
  show "\<forall>r\<in>set (parse_items nodes limit). \<exists>n\<in>set nodes.
         r = record_of n \<and> title_elem n \<noteq> None \<and> price_elem n \<noteq> None \<and> link_elem n \<noteq> None
         \<and> lower (strip (title r)) \<noteq> ''shop on ebay''"
  proof
    fix x assume "x \<in> set (parse_items nodes limit)"
    then have "x \<in> set (map record_of (filter complete_node (py_take limit nodes)))"
      by (simp only: eq)
    then have "\<exists>m. m \<in> set (py_take limit nodes) \<and> complete_node m \<and> x = record_of m"
      by auto
    then obtain m where m: "m \<in> set (py_take limit nodes)" "complete_node m" "x = record_of m"
      by blast
    from m(1) have mem: "m \<in> set nodes"
      by (rule py_take_set [THEN subsetD])
    have "strip (title x) = strip (the (title_elem m))"
      using m(3) by (simp add: record_of_def strip_idem)
    with m(2,3) have c: "x = record_of m \<and> title_elem m \<noteq> None \<and> price_elem m \<noteq> None
         \<and> link_elem m \<noteq> None \<and> lower (strip (title x)) \<noteq> ''shop on ebay''"
      by (simp add: complete_node_def)
    show "\<exists>n\<in>set nodes.
         x = record_of n \<and> title_elem n \<noteq> None \<and> price_elem n \<noteq> None \<and> link_elem n \<noteq> None
         \<and> lower (strip (title x)) \<noteq> ''shop on ebay''"
    proof (rule bexI)
      show "x = record_of m \<and> title_elem m \<noteq> None \<and> price_elem m \<noteq> None
         \<and> link_elem m \<noteq> None \<and> lower (strip (title x)) \<noteq> ''shop on ebay''"
        by (rule c)
      show "m \<in> set nodes"
        by (rule mem)
    qed
  qed
  show "0 \<le> limit \<longrightarrow> int (length (parse_items nodes limit)) \<le> limit"
  proof
    assume "0 \<le> limit"
    then have "int (length (py_take limit nodes)) \<le> limit"
      by (rule py_take_length)
    moreover have "length (parse_items nodes limit) \<le> length (py_take limit nodes)"
      by (simp add: eq)
    ultimately show "int (length (parse_items nodes limit)) \<le> limit"
      by linarith
  qed
  show "extract_item_data item = Some item_data \<longrightarrow>
         title_elem item \<noteq> None \<and> link_elem item = Some (link item_data)
         \<and> link item_data \<noteq> None \<and> link item_data \<noteq> Some []
         \<and> lower (title item_data) \<noteq> ''shop on ebay''
         \<and> price_field item_data
             = (case price_elem item of Some p \<Rightarrow> strip p | None \<Rightarrow> ''Not specified'')"
    by (rule impI) (rule extract_item_data_Some)
  show "length (scrape_ebay listings max_results) = length (py_take max_results listings)"
    by (simp add: scrape_ebay_def scrape_ebay_loop_length)
qed

theorem raw_extraction_filters_witness:
  "parse_items
     [\<lparr>title_elem = Some '' Phone '', price_elem = Some ''10'', link_elem = Some (Some ''http://e/1''),
       condition_elem = None, shipping_elem = None\<rparr>,
      \<lparr>title_elem = Some '' Shop on eBay '', price_elem = Some ''20'', link_elem = Some (Some ''http://e/2''),
       condition_elem = None, shipping_elem = None\<rparr>,
      \<lparr>title_elem = Some ''Case'', price_elem = None, link_elem = Some (Some ''http://e/3''),
       condition_elem = None, shipping_elem = None\<rparr>] 5
   = [\<lparr>title = ''Phone'', price_field = ''10'', condition = ''Not specified'', shipping = None,
       link = Some ''http://e/1''\<rparr>]
   \<and> extract_item_data
       \<lparr>title_elem = Some '' Phone '', price_elem = Some ''10'', link_elem = Some (Some ''http://e/1''),
        condition_elem = None, shipping_elem = None\<rparr>
     = Some \<lparr>title = ''Phone'', price_field = ''10'', condition = ''Not specified'',
              shipping = Some ''Not specified'', link = Some ''http://e/1''\<rparr>
   \<and> lower ''Phone'' \<noteq> ''shop on ebay''"
proof -
  let ?a = "\<lparr>title_elem = Some '' Phone '', price_elem = Some ''10'', link_elem = Some (Some ''http://e/1''),
       condition_elem = None, shipping_elem = None\<rparr>"
  let ?b = "\<lparr>title_elem = Some '' Shop on eBay '', price_elem = Some ''20'', link_elem = Some (Some ''http://e/2''),
       condition_elem = None, shipping_elem = None\<rparr>"
  let ?c = "\<lparr>title_elem = Some ''Case'', price_elem = None, link_elem = Some (Some ''http://e/3''),
       condition_elem = None, shipping_elem = None\<rparr>"
  let ?r = "\<lparr>title = ''Phone'', price_field = ''10'', condition = ''Not specified'',
              shipping = Some ''Not specified'', link = Some ''http://e/1''\<rparr>"
  have ca: "complete_node ?a" and cb: "\<not> complete_node ?b" and cc: "\<not> complete_node ?c"
    by (simp_all add: extraction_eval)
  have ra: "record_of ?a = \<lparr>title = ''Phone'', price_field = ''10'', condition = ''Not specified'',
       shipping = None, link = Some ''http://e/1''\<rparr>"
    by (simp add: extraction_eval)
  have ea: "extract_item_data ?a = Some ?r"
    by (simp add: extraction_eval)
  note t = raw_extraction_filters [of "[?a, ?b, ?c]" 5 ?a ?r "[?a, ?b, ?c]" 5]
  from t [THEN conjunct1] have p: "parse_items [?a, ?b, ?c] 5 = [record_of ?a]"
    using ca cb cc by (simp add: py_take_def)
  from t [THEN conjunct2, THEN conjunct2, THEN conjunct2, THEN conjunct1] ea
  have l: "lower (title ?r) \<noteq> ''shop on ebay''"
    by blast
  from p ra ea l show ?thesis
    by simp
qed

section \<open>Properties of the delegate adapters and the chat responder\<close>

text \<open>
  Claim C9. The adapter of \<open>parser\<close> hands the delegate's answer to \<open>eval\<close>: when the
  delegate answers with the code \<open>code_answer\<close>, whatever text it was asked to format,
  the effects of \<open>parse_llm_response\<close> are the call of the delegate and the evaluation
  of that code. The claim forbids it.
\<close>

theorem legacy_adapter_evaluates_delegate_output:
  "fst (parse_llm_response code_delegate py_eval response_text)
   = [Delegate [''You are a helpful assistant that formats text as valid JSON.'',
                formatting_prompt response_text], Eval code_answer]"
  by (simp add: parse_llm_response_def code_delegate_def Let_def split: sum.splits)

text \<open>
  The loop of \<open>parser_enhanced\<close> evaluates nothing: it adds no evaluation to the effects
  and calls the delegate once for each chunk, with no repair call.
\<close>

lemma enhanced_adapter_only_parses:
  "filter is_eval (fst (parse_with_llm_loop chain json_loads d chunks effects results))
     = filter is_eval effects
   \<and> length (filter is_delegate (fst (parse_with_llm_loop chain json_loads d chunks effects results)))
     = length (filter is_delegate effects) + length chunks"
  by (induction chunks arbitrary: effects results) (auto split: sum.splits)

lemma summary_without_analysis:
  "ps \<noteq> [] \<Longrightarrow> create_product_summary str_num set_iter ps None = Inl TypeError"
  by (simp add: create_product_summary_def Let_def)

lemma response_nonempty:
  "ps \<noteq> [] \<Longrightarrow> generate_response chat_model str_num set_iter q (Some ps) ma \<noteq> ([], Inr fixed_message)"
  by (auto simp: generate_response_def Let_def split: sum.splits)

text \<open>
  Claim C10. \<open>generate_response\<close> returns the fixed message with no effect, so without a
  call of the delegate, exactly when the product list is absent or empty. With products
  and no analysis it does not return the fixed message: it raises \<open>TypeError\<close>, again
  before any call of the delegate.
\<close>

theorem fixed_message_iff_no_products:
  "(generate_response chat_model str_num set_iter q product_data market_analysis
      = ([], Inr fixed_message)) = (product_data = None \<or> product_data = Some [])
   \<and> (product_data = Some (p # ps) \<longrightarrow> market_analysis = None \<longrightarrow>
        generate_response chat_model str_num set_iter q product_data market_analysis
          = ([], Inl TypeError))"
proof
  show "(generate_response chat_model str_num set_iter q product_data market_analysis
      = ([], Inr fixed_message)) = (product_data = None \<or> product_data = Some [])"
  proof (cases product_data)
    case None
    then show ?thesis by (simp add: generate_response_def)
  next
    case (Some xs)
    show ?thesis
    proof (cases "xs = []")
      case True
      with Some show ?thesis by (simp add: generate_response_def)
    next
      case False
      with Some show ?thesis
        using response_nonempty [of xs chat_model str_num set_iter q market_analysis] by simp
    qed
  qed
next
  show "product_data = Some (p # ps) \<longrightarrow> market_analysis = None \<longrightarrow>
        generate_response chat_model str_num set_iter q product_data market_analysis
          = ([], Inl TypeError)"
    using summary_without_analysis [of "p # ps" str_num set_iter]
    by (simp add: generate_response_def)
qed

theorem fixed_message_iff_no_products_witness:
  "generate_response echo_delegate fixed2 remdups ''how much?'' (Some []) None = ([], Inr fixed_message)
   \<and> generate_response echo_delegate fixed2 remdups ''how much?'' None None = ([], Inr fixed_message)
   \<and> generate_response echo_delegate fixed2 remdups ''how much?''
        (Some [listing ''10'']) None = ([], Inl TypeError)
   \<and> generate_response echo_delegate fixed2 remdups ''how much?''
        (Some [listing ''10'']) (Some get_empty_analysis) \<noteq> ([], Inr fixed_message)"
  using fixed_message_iff_no_products [of echo_delegate fixed2 remdups "''how much?''" "Some []" None "listing ''10''" "[]"]
    fixed_message_iff_no_products [of echo_delegate fixed2 remdups "''how much?''" None None "listing ''10''" "[]"]
    fixed_message_iff_no_products [of echo_delegate fixed2 remdups "''how much?''" "Some [listing ''10'']" None "listing ''10''" "[]"]
    fixed_message_iff_no_products [of echo_delegate fixed2 remdups "''how much?''" "Some [listing ''10'']" "Some get_empty_analysis" "listing ''10''" "[]"]
  by simp

end
